theory Spec2Isabelle
  imports Complex_Main "HOL-Library.Word" "HOL-Library.Log_Nat"
begin

section \<open>Results of a call\<close>

text \<open>
  A Go call of this program ends in one of three ways: it returns a value with a nil
  error, it returns a non-nil error, or it panics at run time (an index out of range,
  a \<open>big.ErrNaN\<close>, a negative slice length). Errors built with \<open>errors.New\<close> are told apart
  by their message; errors of the collaborators are opaque.
\<close>

datatype error = ErrSameToken | ErrMaxHopsZero | ErrMaxHopsTooLarge
  | ErrRateSameToken | ErrRateSameMagnitude | ErrCollab string
datatype panic = IndexOutOfRange | ErrNaN | MakeSliceLen
datatype 'a outcome = Ok 'a | Err error | Panic panic

section \<open>Arbitrary-precision floats\<close>

text \<open>
  \<open>math/big.Float\<close>: a precision (in bits), a sign, and a magnitude that is zero, a
  positive finite number or infinity. Arithmetic rounds the exact result to the
  precision of the result, to nearest, ties to even. The exponent range of \<open>big.Float\<close>
  (about \<open>2^31\<close> binary digits either way) is not modelled.
\<close>

datatype fmag = Fin rat | Infinite
datatype bigFloat = BigFloat (prec: nat) (neg: bool) (mag: fmag)
datatype form = FormZero | FormFinite | FormInf

definition form :: "bigFloat \<Rightarrow> form" where
  "form x = (case mag x of Infinite \<Rightarrow> FormInf
             | Fin q \<Rightarrow> if q = 0 then FormZero else FormFinite)"

definition magv :: "bigFloat \<Rightarrow> rat" where
  "magv x = (case mag x of Infinite \<Rightarrow> 0 | Fin q \<Rightarrow> q)"

text \<open>
  Rounding a positive rational \<open>q\<close> to \<open>p\<close> bits: \<open>binExp q\<close> is the exponent \<open>e\<close>
  with \<open>2^(e-1) \<le> q < 2^e\<close>, the mantissa \<open>q * 2^(p-e)\<close> is rounded to an integer
  (half to even) and scaled back.
\<close>

definition pow2 :: "int \<Rightarrow> rat" where
  "pow2 k = (if 0 \<le> k then 2 ^ nat k else 1 / 2 ^ nat (- k))"

definition binExp :: "rat \<Rightarrow> int" where
  "binExp q = (let n = fst (quotient_of q); d = snd (quotient_of q);
                   k = bitlen n - bitlen d
               in if d * 2 ^ nat (bitlen n) \<le> n * 2 ^ nat (bitlen d) then k + 1 else k)"

definition roundHalfEven :: "rat \<Rightarrow> int" where
  "roundHalfEven s = (let f = \<lfloor>s\<rfloor>; r = s - of_int f
                      in if r < 1 / 2 then f
                         else if 1 / 2 < r then f + 1
                         else if even f then f else f + 1)"

definition roundMag :: "nat \<Rightarrow> rat \<Rightarrow> rat" where
  "roundMag p q = (let e = binExp q
                   in of_int (roundHalfEven (q * pow2 (int p - e))) * pow2 (e - int p))"

text \<open>
  \<open>SetInt\<close> on a fresh float takes the precision \<open>max(bitLen, 64)\<close>, so the integer is
  held exactly. \<open>big.NewFloat\<close> has precision 53 (it is only called with 0 and 1 here);
  \<open>&big.Float{}\<close> is zero with precision 0. \<open>Quo\<close> and \<open>Mul\<close> are always called on a fresh
  receiver, whose precision becomes the larger of the operands' precisions.
\<close>

definition bitLen :: "int \<Rightarrow> nat" where
  "bitLen x = nat (bitlen \<bar>x\<bar>)"

definition SetInt :: "int \<Rightarrow> bigFloat" where
  "SetInt x = BigFloat (max (bitLen x) 64) (x < 0) (Fin (of_int \<bar>x\<bar>))"

definition NewFloat :: "int \<Rightarrow> bigFloat" where
  "NewFloat x = BigFloat 53 (x < 0) (Fin (of_int \<bar>x\<bar>))"

definition zeroFloat :: bigFloat where
  "zeroFloat = BigFloat 0 False (Fin 0)"

definition Quo :: "bigFloat \<Rightarrow> bigFloat \<Rightarrow> bigFloat outcome" where
  "Quo x y = (let p = max (prec x) (prec y); s = (neg x \<noteq> neg y)
              in if form x = FormFinite \<and> form y = FormFinite
                 then Ok (BigFloat p s (Fin (roundMag p (magv x / magv y))))
                 else if form x = FormZero \<and> form y = FormZero
                         \<or> form x = FormInf \<and> form y = FormInf
                 then Panic ErrNaN
                 else if form x = FormZero \<or> form y = FormInf
                 then Ok (BigFloat p s (Fin 0))
                 else Ok (BigFloat p s Infinite))"

definition Mul :: "bigFloat \<Rightarrow> bigFloat \<Rightarrow> bigFloat outcome" where
  "Mul x y = (let p = max (prec x) (prec y); s = (neg x \<noteq> neg y)
              in if form x = FormFinite \<and> form y = FormFinite
                 then Ok (BigFloat p s (Fin (roundMag p (magv x * magv y))))
                 else if form x = FormZero \<and> form y = FormInf
                         \<or> form x = FormInf \<and> form y = FormZero
                 then Panic ErrNaN
                 else if form x = FormInf \<or> form y = FormInf
                 then Ok (BigFloat p s Infinite)
                 else Ok (BigFloat p s (Fin 0)))"

definition ord :: "bigFloat \<Rightarrow> int" where
  "ord x = (case form x of FormFinite \<Rightarrow> (if neg x then - 1 else 1)
            | FormZero \<Rightarrow> 0
            | FormInf \<Rightarrow> (if neg x then - 2 else 2))"

definition ucmp :: "bigFloat \<Rightarrow> bigFloat \<Rightarrow> int" where
  "ucmp x y = (if magv x < magv y then - 1 else if magv y < magv x then 1 else 0)"

definition Cmp :: "bigFloat \<Rightarrow> bigFloat \<Rightarrow> int" where
  "Cmp x y = (let mx = ord x; my = ord y
              in if mx < my then - 1
                 else if my < mx then 1
                 else if mx = - 1 then ucmp y x
                 else if mx = 1 then ucmp x y
                 else 0)"


definition fInt :: "bigFloat \<Rightarrow> int option" where
  "fInt x = (case mag x of Infinite \<Rightarrow> None
             | Fin q \<Rightarrow> Some ((if neg x then - 1 else 1) * \<lfloor>q\<rfloor>))"

section \<open>Decimal normalisation and the hop price\<close>

text \<open>
  A token is a 20-byte address (\<open>common.Address\<close>); decimals are \<open>uint8\<close>; reserves and
  amounts are \<open>*big.Int\<close>, unbounded integers.

  \<open>big.Int.Exp(x, y, nil)\<close> is 1 for \<open>y \<le> 0\<close> and \<open>x\<close> to the power \<open>y\<close> otherwise.
  In \<open>toEighteenDecimals\<close> the constant 18 is converted to \<open>uint8\<close>, so \<open>18 - decimals\<close> is a
  subtraction of 8-bit words and wraps; \<open>int64(...)\<close> of a \<open>uint8\<close> is its unsigned value.
  \<open>calculatePrice\<close> ignores its last argument.
\<close>

type_synonym address = "160 word"

definition bigExp :: "int \<Rightarrow> int \<Rightarrow> int" where
  "bigExp x y = (if y \<le> 0 then 1 else x ^ nat y)"

definition toEighteenDecimals :: "address \<Rightarrow> int \<Rightarrow> 8 word \<Rightarrow> int" where
  "toEighteenDecimals tokenAddress amount decimals =
     (if decimals = 18 then amount
      else amount * bigExp 10 (uint (18 - decimals)))"

definition calculatePrice ::
  "int \<Rightarrow> int \<Rightarrow> 8 word \<Rightarrow> 8 word \<Rightarrow> int option \<Rightarrow> bigFloat outcome" where
  "calculatePrice reserve0 reserve1 decimalsA decimalsB inputAmount =
     (let tokenAReserve = toEighteenDecimals 0 reserve0 decimalsA;
          tokenBReserve = toEighteenDecimals 0 reserve1 decimalsB
      in Quo (SetInt tokenBReserve) (SetInt tokenAReserve))"

section \<open>Collaborators\<close>

text \<open>
  The providers are interfaces of the program; each is a function of its arguments here
  (one route computation reads a snapshot). A Go provider returns a value together with
  an error, and two call sites discard the error and use the value, so a provider returns
  the pair. Every call made to a provider is recorded, in order, in a list of calls
  returned beside the result.

  \<open>common.Address.String\<close> belongs to go-ethereum (it renders the address in hexadecimal
  with the mixed-case checksum of EIP-55) and is a parameter \<open>str\<close> of the model. Go compares
  strings bytewise, which is \<open>strLess\<close>.
\<close>

record Pool =
  token0 :: address
  token1 :: address
  contract :: address

datatype call = CallGetPools
  | CallGetTradingPair address address
  | CallGetPoolReserves address
  | CallGetTokenDecimals address
  | CallGetExchangeRate address address

type_synonym TradingPairProvider = "address \<Rightarrow> address \<Rightarrow> address \<times> error option"
type_synonym PoolReservesProvider = "address \<Rightarrow> (int \<times> int) \<times> error option"
type_synonym TokenDecimalsProvider = "address \<Rightarrow> 8 word \<times> error option"
type_synonym PoolsProvider = "Pool list \<times> error option"
type_synonym ExchangeRateProvider = "address \<Rightarrow> address \<Rightarrow> call list \<times> bigFloat outcome"

record OnChainExchangeRateProvider =
  pairProvider :: TradingPairProvider
  ratePoolReservesProvider :: PoolReservesProvider
  rateTokenDecimalsProvider :: TokenDecimalsProvider

record OnChainV2Router =
  rateProvider :: ExchangeRateProvider
  poolProvider :: PoolsProvider
  tradingPairProvider :: TradingPairProvider
  poolReservesProvider :: PoolReservesProvider
  tokenDecimalsProvider :: TokenDecimalsProvider

fun strLess :: "string \<Rightarrow> string \<Rightarrow> bool" where
  "strLess [] [] = False"
| "strLess [] (y # ys) = True"
| "strLess (x # xs) [] = False"
| "strLess (x # xs) (y # ys) =
     (if (of_char x :: nat) < of_char y then True
      else if (of_char y :: nat) < of_char x then False
      else strLess xs ys)"

section \<open>Direct quote\<close>

text \<open>
  \<open>GetExchangeRate\<close> discards the errors of the pair and decimals lookups. The magnitudes
  are parsed from the hexadecimal digits of the address, whatever their case, so they are
  the numeric values of the addresses.
\<close>

definition GetExchangeRate ::
  "(address \<Rightarrow> string) \<Rightarrow> OnChainExchangeRateProvider \<Rightarrow> ExchangeRateProvider" where
  "GetExchangeRate str f tokenA tokenB =
     (if str tokenA = str tokenB then ([], Err ErrRateSameToken)
      else
        let pairAddress = fst (pairProvider f tokenA tokenB);
            tokenAMagnitude = uint tokenA;
            tokenBMagnitude = uint tokenB;
            decimalsA = fst (rateTokenDecimalsProvider f tokenA);
            decimalsB = fst (rateTokenDecimalsProvider f tokenB);
            calls = [CallGetTradingPair tokenA tokenB, CallGetTokenDecimals tokenA,
                     CallGetTokenDecimals tokenB, CallGetPoolReserves pairAddress]
        in (case ratePoolReservesProvider f pairAddress of
             (_, Some e) \<Rightarrow> (calls, Err e)
           | ((reserve0, reserve1), None) \<Rightarrow>
               if tokenAMagnitude < tokenBMagnitude then
                 (let tokenAReserve = toEighteenDecimals tokenA reserve0 decimalsA;
                      tokenBReserve = toEighteenDecimals tokenB reserve1 decimalsB
                  in (calls, Quo (SetInt tokenBReserve) (SetInt tokenAReserve)))
               else if tokenBMagnitude < tokenAMagnitude then
                 (let tokenAReserve = toEighteenDecimals tokenA reserve1 decimalsA;
                      tokenBReserve = toEighteenDecimals tokenB reserve0 decimalsB
                  in (calls, Quo (SetInt tokenBReserve) (SetInt tokenAReserve)))
               else (calls, Err ErrRateSameMagnitude)))"

section \<open>Multi-hop routing\<close>

text \<open>
  The token list: the tokens of the pools in first-seen order (\<open>usedTokens\<close> is keyed by
  the string of the address), then \<open>tokenIn\<close> and \<open>tokenOut\<close> when not seen. The two indices
  are found by a scan that starts from \<open>-1\<close> and keeps the last match.
\<close>

fun addPools ::
  "(address \<Rightarrow> string) \<Rightarrow> Pool list \<Rightarrow> string list \<times> address list
     \<Rightarrow> string list \<times> address list" where
  "addPools str [] (usedTokens, tokens) = (usedTokens, tokens)"
| "addPools str (pair # pools) (usedTokens, tokens) =
     (let (used1, tokens1) =
            (if str (token0 pair) \<notin> set usedTokens
             then (str (token0 pair) # usedTokens, tokens @ [token0 pair])
             else (usedTokens, tokens));
          (used2, tokens2) =
            (if str (token1 pair) \<notin> set used1
             then (str (token1 pair) # used1, tokens1 @ [token1 pair])
             else (used1, tokens1))
      in addPools str pools (used2, tokens2))"

definition buildTokens ::
  "(address \<Rightarrow> string) \<Rightarrow> Pool list \<Rightarrow> address \<Rightarrow> address \<Rightarrow> address list" where
  "buildTokens str pools tokenIn tokenOut =
     (let (usedTokens, tokens) = addPools str pools ([], []);
          tokens1 = (if str tokenIn \<notin> set usedTokens then tokens @ [tokenIn] else tokens);
          tokens2 = (if str tokenOut \<notin> set usedTokens then tokens1 @ [tokenOut] else tokens1)
      in tokens2)"

fun scanIndex :: "(address \<Rightarrow> string) \<Rightarrow> address list \<Rightarrow> address \<Rightarrow> nat \<Rightarrow> int \<Rightarrow> int" where
  "scanIndex str [] t i found = found"
| "scanIndex str (x # xs) t i found =
     scanIndex str xs t (Suc i) (if str x = str t then int i else found)"

definition index :: "'a list \<Rightarrow> int \<Rightarrow> 'a option" where
  "index xs i = (if 0 \<le> i \<and> i < int (length xs) then Some (xs ! nat i) else None)"

definition indexPairs :: "nat \<Rightarrow> (nat \<times> nat) list" where
  "indexPairs n = concat (map (\<lambda>i. map (\<lambda>j. (i, j)) [0..<n]) [0..<n])"

text \<open>
  The reserve cache is filled for every ordered pair of distinct indices, under the key
  \<open>tokens[i].String() + tokens[j].String()\<close>; the first error of a provider ends the route.
\<close>

type_synonym reservesCache = "string \<Rightarrow> (int \<times> int) option"

fun populate ::
  "(address \<Rightarrow> string) \<Rightarrow> OnChainV2Router \<Rightarrow> address list \<Rightarrow> (nat \<times> nat) list
     \<Rightarrow> reservesCache \<Rightarrow> call list \<times> reservesCache outcome" where
  "populate str r tokens [] cache = ([], Ok cache)"
| "populate str r tokens ((i, j) # rest) cache =
     (if i = j then populate str r tokens rest cache
      else
        let key = str (tokens ! i) @ str (tokens ! j);
            c1 = CallGetTradingPair (tokens ! i) (tokens ! j)
        in (case tradingPairProvider r (tokens ! i) (tokens ! j) of
             (_, Some e) \<Rightarrow> ([c1], Err e)
           | (pair, None) \<Rightarrow>
               (case poolReservesProvider r pair of
                  (_, Some e) \<Rightarrow> ([c1, CallGetPoolReserves pair], Err e)
                | ((reservesA, reservesB), None) \<Rightarrow>
                    (case populate str r tokens rest
                            (if strLess (str (tokens ! j)) (str (tokens ! i))
                             then cache(key \<mapsto> (reservesB, reservesA))
                             else cache(key \<mapsto> (reservesA, reservesB))) of
                       (cs, res) \<Rightarrow> (c1 # CallGetPoolReserves pair # cs, res)))))"

text \<open>
  One step of the two inner loops at a hop level, for the pair \<open>(input, output)\<close>:
  \<open>prevRow\<close> is the row of the level below, \<open>row\<close> the row being filled, \<open>prevI\<close> the
  predecessor map of this level. Reading a key that is not in the cache gives a nil
  slice, and taking its element 0 panics.
\<close>

type_synonym prevMap = "address \<Rightarrow> address option"

definition relax ::
  "(address \<Rightarrow> string) \<Rightarrow> OnChainV2Router \<Rightarrow> address list \<Rightarrow> reservesCache
     \<Rightarrow> bigFloat list \<Rightarrow> nat \<times> nat \<Rightarrow> bigFloat list \<times> prevMap
     \<Rightarrow> call list \<times> (bigFloat list \<times> prevMap) outcome" where
  "relax str r tokens cache prevRow io st =
     (let input = fst io; output = snd io; row = fst st; prevI = snd st in
      if input = output then
        (if Cmp (row ! output) (prevRow ! input) < 0
         then ([], Ok (row[output := prevRow ! input], prevI))
         else ([], Ok (row, prevI)))
      else
        let inputAmount = prevRow ! input in
        if Cmp inputAmount (NewFloat 0) = 0 then ([], Ok (row, prevI))
        else
          case (if strLess (str (tokens ! input)) (str (tokens ! output))
                then (case cache (str (tokens ! input) @ str (tokens ! output)) of
                        None \<Rightarrow> None
                      | Some (res0, res1) \<Rightarrow> Some (res0, res1))
                else (case cache (str (tokens ! output) @ str (tokens ! input)) of
                        None \<Rightarrow> None
                      | Some (res0, res1) \<Rightarrow> Some (res1, res0))) of
            None \<Rightarrow> ([], Panic IndexOutOfRange)
          | Some (reservesInput, reservesOutput) \<Rightarrow>
              let decimalsInput = fst (tokenDecimalsProvider r (tokens ! input));
                  decimalsOutput = fst (tokenDecimalsProvider r (tokens ! output));
                  calls = [CallGetTokenDecimals (tokens ! input),
                           CallGetTokenDecimals (tokens ! output)];
                  tokenInput = fInt inputAmount
              in (case calculatePrice reservesInput reservesOutput
                         decimalsInput decimalsOutput tokenInput of
                   Ok rate \<Rightarrow>
                     (case Mul inputAmount rate of
                        Ok possibleOutputAmount \<Rightarrow>
                          if 0 < Cmp possibleOutputAmount (row ! output)
                          then (calls, Ok (row[output := possibleOutputAmount],
                                           prevI(tokens ! output \<mapsto> tokens ! input)))
                          else (calls, Ok (row, prevI))
                      | Err e \<Rightarrow> (calls, Err e)
                      | Panic p \<Rightarrow> (calls, Panic p))
                 | Err e \<Rightarrow> (calls, Err e)
                 | Panic p \<Rightarrow> (calls, Panic p)))"

fun relaxAll ::
  "(address \<Rightarrow> string) \<Rightarrow> OnChainV2Router \<Rightarrow> address list \<Rightarrow> reservesCache
     \<Rightarrow> bigFloat list \<Rightarrow> (nat \<times> nat) list \<Rightarrow> bigFloat list \<times> prevMap
     \<Rightarrow> call list \<times> (bigFloat list \<times> prevMap) outcome" where
  "relaxAll str r tokens cache prevRow [] st = ([], Ok st)"
| "relaxAll str r tokens cache prevRow (io # ios) st =
     (case relax str r tokens cache prevRow io st of
        (cs, Ok st') \<Rightarrow>
          (case relaxAll str r tokens cache prevRow ios st' of
             (cs', res) \<Rightarrow> (cs @ cs', res))
      | (cs, Err e) \<Rightarrow> (cs, Err e)
      | (cs, Panic p) \<Rightarrow> (cs, Panic p))"

text \<open>
  The loop over hop levels \<open>i = 1 .. maxHops\<close> (level 0 only sets the source to 1):
  \<open>cachedPossibleOutputs\<close> holds the rows filled so far. The loop stops at the first
  level whose value at the destination does not exceed \<open>bestPrice\<close>; otherwise
  \<open>numHops\<close> becomes \<open>i + 1\<close>.
\<close>

record dpState =
  cachedPossibleOutputs :: "bigFloat list list"
  prev :: "nat \<Rightarrow> prevMap"
  bestPrice :: bigFloat
  numHops :: int

fun hopLoop ::
  "(address \<Rightarrow> string) \<Rightarrow> OnChainV2Router \<Rightarrow> address list \<Rightarrow> reservesCache \<Rightarrow> int
     \<Rightarrow> nat \<Rightarrow> nat \<Rightarrow> dpState \<Rightarrow> call list \<times> dpState outcome" where
  "hopLoop str r tokens cache tokenOutIndex 0 i st = ([], Ok st)"
| "hopLoop str r tokens cache tokenOutIndex (Suc n) i st =
     (case relaxAll str r tokens cache (cachedPossibleOutputs st ! (i - 1))
             (indexPairs (length tokens))
             (replicate (length tokens) (NewFloat 0), prev st i) of
        (cs, Ok (row, prevI)) \<Rightarrow>
          (let st1 = st \<lparr> cachedPossibleOutputs := cachedPossibleOutputs st @ [row],
                          prev := (prev st)(i := prevI) \<rparr>
           in (case index row tokenOutIndex of
                 None \<Rightarrow> (cs, Panic IndexOutOfRange)
               | Some v \<Rightarrow>
                   if 0 \<le> Cmp (bestPrice st1) v then (cs, Ok st1)
                   else (case hopLoop str r tokens cache tokenOutIndex n (Suc i)
                                (st1 \<lparr> numHops := int i + 1, bestPrice := v \<rparr>) of
                           (cs', res) \<Rightarrow> (cs @ cs', res))))
      | (cs, Err e) \<Rightarrow> (cs, Err e)
      | (cs, Panic p) \<Rightarrow> (cs, Panic p))"

text \<open>
  Path reconstruction: \<open>walk prv n\<close> runs the loop \<open>for i := n - 1; i >= 0; i--\<close>.
  \<open>dpRun\<close> is the part of \<open>Route\<close> from the allocation of the table to the end of
  the loop over hop levels (a negative length of the table panics), \<open>routeDP\<close> adds the
  path and the result, the element \<open>numHops - 1\<close> of the table, an index that Go checks.
\<close>

fun walk :: "(nat \<Rightarrow> prevMap) \<Rightarrow> nat \<Rightarrow> address \<Rightarrow> address list \<Rightarrow> address list" where
  "walk prv 0 currentToken path = path"
| "walk prv (Suc i) currentToken path =
     (case prv i currentToken of
        None \<Rightarrow> path @ [currentToken]
      | Some token \<Rightarrow> walk prv i token (path @ [currentToken]))"

definition dpRun ::
  "(address \<Rightarrow> string) \<Rightarrow> OnChainV2Router \<Rightarrow> address list \<Rightarrow> reservesCache
     \<Rightarrow> int \<Rightarrow> int \<Rightarrow> int \<Rightarrow> call list \<times> dpState outcome" where
  "dpRun str r tokens cache tokenInIndex tokenOutIndex maxHops =
     (if maxHops + 1 < 0 then ([], Panic MakeSliceLen)
      else if maxHops + 1 = 0
      then ([], Ok \<lparr> cachedPossibleOutputs = [], prev = (\<lambda>i. Map.empty),
                      bestPrice = zeroFloat, numHops = 0 \<rparr>)
      else if 0 \<le> tokenInIndex \<and> tokenInIndex < int (length tokens)
      then hopLoop str r tokens cache tokenOutIndex (nat maxHops) 1
             \<lparr> cachedPossibleOutputs =
                  [(replicate (length tokens) (NewFloat 0))
                      [nat tokenInIndex := NewFloat 1]],
                prev = (\<lambda>i. Map.empty), bestPrice = zeroFloat, numHops = 0 \<rparr>
      else ([], Panic IndexOutOfRange))"

definition routeDP ::
  "(address \<Rightarrow> string) \<Rightarrow> OnChainV2Router \<Rightarrow> address list \<Rightarrow> reservesCache
     \<Rightarrow> int \<Rightarrow> int \<Rightarrow> int \<Rightarrow> call list \<times> (bigFloat \<times> address list) outcome" where
  "routeDP str r tokens cache tokenInIndex tokenOutIndex maxHops =
     (case dpRun str r tokens cache tokenInIndex tokenOutIndex maxHops of
        (cs, Ok st) \<Rightarrow>
          (case index tokens tokenOutIndex of
             None \<Rightarrow> (cs, Panic IndexOutOfRange)
           | Some currentToken \<Rightarrow>
               let path = rev (walk (prev st) (nat (numHops st)) currentToken [])
               in (case index (cachedPossibleOutputs st) (numHops st - 1) of
                     None \<Rightarrow> (cs, Panic IndexOutOfRange)
                   | Some row \<Rightarrow>
                       (case index row tokenOutIndex of
                          None \<Rightarrow> (cs, Panic IndexOutOfRange)
                        | Some v \<Rightarrow> (cs, Ok (v, path)))))
      | (cs, Err e) \<Rightarrow> (cs, Err e)
      | (cs, Panic p) \<Rightarrow> (cs, Panic p))"

definition Route ::
  "(address \<Rightarrow> string) \<Rightarrow> OnChainV2Router \<Rightarrow> address \<Rightarrow> address \<Rightarrow> int
     \<Rightarrow> call list \<times> (bigFloat \<times> address list) outcome" where
  "Route str r tokenIn tokenOut maxHops =
     (if str tokenIn = str tokenOut then ([], Err ErrSameToken)
      else if maxHops = 0 then ([], Err ErrMaxHopsZero)
      else if maxHops = 1 then
        (case rateProvider r tokenIn tokenOut of
           (cs, Ok amountOut) \<Rightarrow>
             (CallGetExchangeRate tokenIn tokenOut # cs, Ok (amountOut, [tokenIn, tokenOut]))
         | (cs, Err e) \<Rightarrow> (CallGetExchangeRate tokenIn tokenOut # cs, Err e)
         | (cs, Panic p) \<Rightarrow> (CallGetExchangeRate tokenIn tokenOut # cs, Panic p))
      else if 5 < maxHops then ([], Err ErrMaxHopsTooLarge)
      else
        case poolProvider r of
          (_, Some e) \<Rightarrow> ([CallGetPools], Err e)
        | (pools, None) \<Rightarrow>
            let tokens = buildTokens str pools tokenIn tokenOut;
                tokenInIndex = scanIndex str tokens tokenIn 0 (- 1);
                tokenOutIndex = scanIndex str tokens tokenOut 0 (- 1)
            in (case populate str r tokens (indexPairs (length tokens)) Map.empty of
                  (cs, Ok reservesCache) \<Rightarrow>
                    (case routeDP str r tokens reservesCache tokenInIndex tokenOutIndex
                            maxHops of
                       (cs', res) \<Rightarrow> (CallGetPools # cs @ cs', res))
                | (cs, Err e) \<Rightarrow> (CallGetPools # cs, Err e)
                | (cs, Panic p) \<Rightarrow> (CallGetPools # cs, Panic p)))"

text \<open>
  The wiring of \<open>main\<close>: the router's rate provider is the on-chain exchange rate
  provider over the same three providers.
\<close>

definition onChainRouter ::
  "(address \<Rightarrow> string) \<Rightarrow> PoolsProvider \<Rightarrow> TradingPairProvider \<Rightarrow> PoolReservesProvider
     \<Rightarrow> TokenDecimalsProvider \<Rightarrow> OnChainV2Router" where
  "onChainRouter str pools pairs reserves decimals =
     \<lparr> rateProvider = GetExchangeRate str
          \<lparr> pairProvider = pairs, ratePoolReservesProvider = reserves,
            rateTokenDecimalsProvider = decimals \<rparr>,
       poolProvider = pools, tradingPairProvider = pairs,
       poolReservesProvider = reserves, tokenDecimalsProvider = decimals \<rparr>"

section \<open>Sample universes\<close>

text \<open>
  The strings go-ethereum gives for the addresses used in the examples: 1 to 5 have no
  letter among their digits; the other two are the WETH and COMP tokens with their
  EIP-55 checksums.
\<close>

definition WETH :: address where
  "WETH = 0xC02aaA39b223FE8D0A0e5C4F27eAD9083C756Cc2"

definition COMP :: address where
  "COMP = 0xc00e94Cb662C3520282E6f5717214004A7f26888"

definition sampleString :: "address \<Rightarrow> string" where
  "sampleString a =
     (if a = 1 then ''0x0000000000000000000000000000000000000001''
      else if a = 2 then ''0x0000000000000000000000000000000000000002''
      else if a = 3 then ''0x0000000000000000000000000000000000000003''
      else if a = 4 then ''0x0000000000000000000000000000000000000004''
      else if a = 5 then ''0x0000000000000000000000000000000000000005''
      else if a = WETH then ''0xC02aaA39b223FE8D0A0e5C4F27eAD9083C756Cc2''
      else if a = COMP then ''0xc00e94Cb662C3520282E6f5717214004A7f26888''
      else [])"

text \<open>
  The universe of three tokens \<open>X = 1\<close>, \<open>Y = 2\<close>, \<open>Z = 3\<close> with 18 decimals each: the pool
  of X and Y holds (100, 200), the pool of Y and Z holds (100, 50), and the pair
  resolver fails for X and Z, which have no pool.
\<close>

definition samplePairs :: TradingPairProvider where
  "samplePairs a b =
     (if (a = 1 \<and> b = 2) \<or> (a = 2 \<and> b = 1) then (0x12, None)
      else if (a = 2 \<and> b = 3) \<or> (a = 3 \<and> b = 2) then (0x23, None)
      else (0, Some (ErrCollab ''pair not found'')))"

definition sampleReserves :: PoolReservesProvider where
  "sampleReserves p =
     (if p = 0x12 then ((100, 200), None)
      else if p = 0x23 then ((100, 50), None)
      else ((0, 0), Some (ErrCollab ''no contract code at given address'')))"

definition samplePools :: "Pool list" where
  "samplePools = [\<lparr> token0 = 1, token1 = 2, contract = 0x12 \<rparr>,
                  \<lparr> token0 = 2, token1 = 3, contract = 0x23 \<rparr>]"

definition sampleRouter :: OnChainV2Router where
  "sampleRouter = onChainRouter sampleString (samplePools, None) samplePairs sampleReserves
                    (\<lambda>a. (18, None))"

text \<open>
  The same universe with a resolver in the manner of the Uniswap factory, which answers
  the zero address and no error for a pair without pool; reading the reserves at the
  zero address then fails, or (second router) reports zero balances.
\<close>

definition factoryRouter :: OnChainV2Router where
  "factoryRouter = onChainRouter sampleString (samplePools, None)
                     (\<lambda>a b. (fst (samplePairs a b), None)) sampleReserves (\<lambda>a. (18, None))"

definition emptyPoolRouter :: OnChainV2Router where
  "emptyPoolRouter = onChainRouter sampleString (samplePools, None)
                       (\<lambda>a b. (fst (samplePairs a b), None))
                       (\<lambda>p. (fst (sampleReserves p), None)) (\<lambda>a. (18, None))"

text \<open>
  Two tokens and one pool that holds 100 of token 1 and nothing of token 2: token 2
  cannot be reached from token 1 at a positive rate.
\<close>

definition drainedRouter :: OnChainV2Router where
  "drainedRouter = onChainRouter sampleString ([], None) (\<lambda>a b. (0x12, None))
                     (\<lambda>p. ((100, 0), None)) (\<lambda>a. (18, None))"

text \<open>
  COMP and WETH with one pool: COMP is the smaller address, so the pool reports
  (COMP balance, WETH balance) = (100, 200). In the second router every decimals lookup
  also reports an error.
\<close>

definition compRouter :: OnChainV2Router where
  "compRouter = onChainRouter sampleString ([], None) (\<lambda>a b. (0x99, None))
                  (\<lambda>p. ((100, 200), None)) (\<lambda>a. (18, None))"

definition noDecimalsRouter :: OnChainV2Router where
  "noDecimalsRouter = onChainRouter sampleString ([], None) (\<lambda>a b. (0x12, None))
                        (\<lambda>p. ((100, 200), None))
                        (\<lambda>a. (18, Some (ErrCollab ''decimals unavailable'')))"

text \<open>
  A market of five tokens in which every pool holds its two tokens in the proportions
  9 : 7 : 9 : 1 : 3 of the tokens 1 to 5, so that all pools agree on every price; three
  pools are \<open>2^63\<close>, \<open>2^64\<close> and \<open>2^66\<close> times larger than the others. The pool of tokens
  \<open>a < b\<close> has the address \<open>16 * a + b\<close>.
\<close>

definition marketPairs :: TradingPairProvider where
  "marketPairs a b = (if a \<le> b then 16 * a + b else 16 * b + a, None)"

definition marketReserves :: PoolReservesProvider where
  "marketReserves p =
     (if p = 0x12 then ((9, 7), None)
      else if p = 0x13 then ((2 ^ 66, 2 ^ 66), None)
      else if p = 0x14 then ((9, 1), None)
      else if p = 0x15 then ((3 * 2 ^ 63, 2 ^ 63), None)
      else if p = 0x23 then ((7 * 2 ^ 64, 9 * 2 ^ 64), None)
      else if p = 0x24 then ((7, 1), None)
      else if p = 0x25 then ((7, 3), None)
      else if p = 0x34 then ((9, 1), None)
      else if p = 0x35 then ((3, 1), None)
      else if p = 0x45 then ((1, 3), None)
      else ((0, 0), Some (ErrCollab ''no contract code at given address'')))"

definition marketPools :: "Pool list" where
  "marketPools = [\<lparr> token0 = 1, token1 = 2, contract = 0x12 \<rparr>,
                  \<lparr> token0 = 3, token1 = 4, contract = 0x34 \<rparr>,
                  \<lparr> token0 = 4, token1 = 5, contract = 0x45 \<rparr>]"

definition marketRouter :: OnChainV2Router where
  "marketRouter = onChainRouter sampleString (marketPools, None) marketPairs marketReserves
                    (\<lambda>a. (18, None))"

definition marketCache :: reservesCache where
  "marketCache =
     (case snd (populate sampleString marketRouter [1, 2, 3, 4, 5] (indexPairs 5) Map.empty) of
        Ok cache \<Rightarrow> cache
      | Err e \<Rightarrow> Map.empty
      | Panic p \<Rightarrow> Map.empty)"

text \<open>
  A rate provider over one pool, of address \<open>0x12\<close>, that reports the reserves \<open>rs\<close>, with
  18 decimals for every token.
\<close>

definition quoteProvider :: "int \<times> int \<Rightarrow> OnChainExchangeRateProvider" where
  "quoteProvider rs =
     \<lparr> pairProvider = (\<lambda>a b. (0x12, None)),
       ratePoolReservesProvider = (\<lambda>p. (rs, None)),
       rateTokenDecimalsProvider = (\<lambda>a. (18, None)) \<rparr>"

text \<open>
  All pools of the universe of X, Y, Z and of the pair X, Z exist (the pool of tokens
  \<open>a < b\<close> has the address \<open>16 * a + b\<close>), but the reserve reader only answers for the pool
  of X and Y; for every other pool it reports a time-out.
\<close>

definition timeoutRouter :: OnChainV2Router where
  "timeoutRouter = onChainRouter sampleString (samplePools, None) marketPairs
                     (\<lambda>p. if p = 0x12 then ((100, 200), None)
                          else ((0, 0), Some (ErrCollab ''rpc timeout'')))
                     (\<lambda>a. (18, None))"

section \<open>The lookup of one pair\<close>

text \<open>
  \<open>lookupError r a b\<close> is the error, if any, that filling the cache for the ordered pair
  \<open>(a, b)\<close> meets: the error of the pair resolver, and otherwise the error of the reserve
  reader at the pool the resolver returned.
\<close>

definition lookupError :: "OnChainV2Router \<Rightarrow> address \<Rightarrow> address \<Rightarrow> error option" where
  "lookupError r a b =
     (case tradingPairProvider r a b of
        (pair, Some e) \<Rightarrow> Some e
      | (pair, None) \<Rightarrow> snd (poolReservesProvider r pair))"

section \<open>Properties of the normaliser\<close>

lemma bigExp_nat: "bigExp x (int n) = x ^ n"
  by (simp add: bigExp_def)

lemma u18: "uint (18 :: 8 word) = 18" by simp

lemma sub8: "uint ((18::8 word) - d) = (18 - uint d) mod 256"
proof -
  have "uint ((18::8 word) - d) = (uint (18::8 word) - uint d) mod 2 ^ LENGTH(8)"
    by (rule uint_word_ariths)
  then show ?thesis by (simp only: u18 len_bit0 len_num1 mult_1_right) simp
qed

lemma uint_sub_le18:
  fixes d :: "8 word"
  assumes "d \<le> 18"
  shows "uint (18 - d) = int (18 - unat d)"
proof -
  have "uint d \<le> uint (18 :: 8 word)" using assms by (simp only: word_le_def)
  then have a: "uint d \<le> 18" by (simp only: u18)
  have b: "0 \<le> uint d" by simp
  have "\<And>x::int. 0 \<le> x \<Longrightarrow> x \<le> 18 \<Longrightarrow> (18 - x) mod 256 = 18 - x" by simp
  from this [OF b a] have c: "(18 - uint d) mod 256 = 18 - uint d" .
  have "unat d = nat (uint d)" by (rule unat_eq_nat_uint)
  then have "int (18 - unat d) = 18 - uint d" using a b by arith
  then show ?thesis using c by (simp only: sub8)
qed

lemma uint_sub_gt18:
  fixes d :: "8 word"
  assumes "18 < d"
  shows "uint (18 - d) = int (274 - unat d)"
proof -
  have "uint (18 :: 8 word) < uint d" using assms by (simp only: word_less_def)
  then have a: "18 < uint d" by (simp only: u18)
  have b: "uint d < 256" using uint_bounded [of d] by simp
  have c: "(18 - uint d) mod 256 = 274 - uint d"
  proof -
    have "\<And>x::int. 18 < x \<Longrightarrow> x < 256 \<Longrightarrow> (18 - x) mod 256 = 274 - x"
    proof -
      fix x :: int assume "18 < x" "x < 256"
      then have "(18 - x + 256) mod 256 = 274 - x" by simp
      then show "(18 - x) mod 256 = 274 - x" by (simp only: mod_add_self2)
    qed
    from this [OF a b] show ?thesis .
  qed
  have "unat d = nat (uint d)" by (rule unat_eq_nat_uint)
  then have "int (274 - unat d) = 274 - uint d" using a b by arith
  then show ?thesis using c by (simp only: sub8)
qed

text \<open>
  C9. For every amount \<open>a\<close> (non-negative or not), normalising at 18 decimals returns \<open>a\<close>
  unchanged, and for every precision \<open>d \<le> 18\<close> the result is exactly \<open>a * 10^(18 - d)\<close>:
  integer arithmetic, no rounding.
\<close>

theorem normalize_exact:
  "toEighteenDecimals t a 18 = a \<and>
   (d \<le> 18 \<longrightarrow> toEighteenDecimals t a d = a * 10 ^ (18 - unat d))"
proof (intro conjI impI)
  show "toEighteenDecimals t a 18 = a" by (simp add: toEighteenDecimals_def)
next
  assume le: "d \<le> 18"
  show "toEighteenDecimals t a d = a * 10 ^ (18 - unat d)"
  proof (cases "d = 18")
    case True
    then show ?thesis by (simp add: toEighteenDecimals_def)
  next
    case False
    then show ?thesis
      using uint_sub_le18 [OF le] by (simp add: toEighteenDecimals_def bigExp_nat)
  qed
qed

theorem normalize_exact_witness:
  "toEighteenDecimals 0 1 18 = 1 \<and> (6::8 word) \<le> 18 \<and>
   toEighteenDecimals 0 1000000 6 = 1000000000000000000"
  using normalize_exact [of 0 1] normalize_exact [of 0 1000000 6] by simp

text \<open>
  C10. For a precision \<open>d\<close> with \<open>18 < d \<le> 255\<close> the 8-bit subtraction wraps around: the
  amount is multiplied by \<open>10^((18 - d) mod 256) = 10^(274 - d)\<close>, never divided, and no
  error is raised; at \<open>d = 19\<close> the factor is \<open>10^255\<close>.
\<close>

theorem normalize_wraps_above_18:
  "18 < d \<Longrightarrow> toEighteenDecimals t a d = a * 10 ^ ((18 + 256 - unat d) mod 256) \<and>
     (18 + 256 - unat d) mod 256 = 274 - unat d \<and> 19 \<le> 274 - unat d"
proof -
  assume gt: "18 < d"
  have a: "18 < unat d" using gt by (simp add: word_less_nat_alt)
  have b: "unat d < 256" using unsigned_less [of d, where 'a = nat] by simp
  have ne: "d \<noteq> 18" using gt by auto
  have m: "(18 + 256 - unat d) mod 256 = 274 - unat d" using a b by simp
  have "toEighteenDecimals t a d = a * 10 ^ (274 - unat d)"
    using uint_sub_gt18 [OF gt] ne by (simp add: toEighteenDecimals_def bigExp_nat)
  then show ?thesis using m a b by simp
qed

theorem normalize_wraps_above_18_witness:
  "(18::8 word) < 19 \<and> toEighteenDecimals 0 7 19 = 7 * 10 ^ 255"
  using normalize_wraps_above_18 [of 19 0 7] by simp


section \<open>Rounding keeps positive numbers positive\<close>

lemma pow2_powi: "pow2 k = 2 powi k"
  by (simp add: pow2_def power_int_def field_simps)

lemma pow2_pos: "0 < pow2 k"
  by (simp add: pow2_powi)

lemma pow2_add: "pow2 (a + b) = pow2 a * pow2 b"
  by (simp add: pow2_powi power_int_add)

lemma pow2_nat_diff: "pow2 (int a - int b) = 2 ^ a / 2 ^ b"
  by (simp add: pow2_powi power_int_diff)

lemma pow2_ge_one: "0 \<le> k \<Longrightarrow> 1 \<le> pow2 k"
  by (simp add: pow2_def)

lemma binExp_lower:
  assumes "0 < q"
  shows "pow2 (binExp q - 1) \<le> q"
proof -
  obtain n d where nd: "quotient_of q = (n, d)" by (cases "quotient_of q")
  have dpos: "0 < d" using nd by (rule quotient_of_denom_pos)
  have q: "q = of_int n / of_int d" using nd by (rule quotient_of_div)
  have npos: "0 < n" using assms dpos q by (simp add: zero_less_divide_iff)
  define bn where "bn = nat (bitlen n)"
  define bd where "bd = nat (bitlen d)"
  have bln: "bitlen n = int bn" by (simp add: bn_def bitlen_nonneg)
  have bld: "bitlen d = int bd" by (simp add: bd_def bitlen_nonneg)
  have bn1: "1 \<le> bn" using npos bitlen_eq_zero_iff [of n] bitlen_nonneg [of n]
    by (simp add: bn_def)
  have nlow: "2 ^ (bn - 1) \<le> n"
    using bitlen_bounds [OF npos] bn1 by (simp add: bn_def nat_diff_distrib)
  have dup: "d < 2 ^ bd" using bitlen_bounds [OF dpos] by (simp add: bd_def)
  show ?thesis
  proof (cases "d * 2 ^ bn \<le> n * 2 ^ bd")
    case True
    then have e: "binExp q - 1 = int bn - int bd"
      by (simp add: binExp_def nd bln bld Let_def)
    have "(of_int (d * 2 ^ bn) :: rat) \<le> of_int (n * 2 ^ bd)"
      using True by (simp only: of_int_le_iff)
    then have "(2 ^ bn :: rat) * of_int d \<le> of_int n * 2 ^ bd"
      by (simp add: mult.commute)
    then have "(2 ^ bn :: rat) / 2 ^ bd \<le> of_int n / of_int d"
      using dpos by (simp add: field_simps)
    then have "(2 ^ bn :: rat) / 2 ^ bd \<le> q" by (simp only: q)
    then show ?thesis by (simp only: e pow2_nat_diff)
  next
    case False
    then have e: "binExp q - 1 = int (bn - 1) - int bd"
      using bn1 by (simp add: binExp_def nd bln bld Let_def)
    have "2 ^ (bn - 1) * d \<le> n * 2 ^ bd"
      using nlow dup dpos npos by (intro mult_mono) auto
    then have "(of_int (2 ^ (bn - 1) * d) :: rat) \<le> of_int (n * 2 ^ bd)"
      by (simp only: of_int_le_iff)
    then have "(2 ^ (bn - 1) :: rat) * of_int d \<le> of_int n * 2 ^ bd"
      by simp
    then have "(2 ^ (bn - 1) :: rat) / 2 ^ bd \<le> of_int n / of_int d"
      using dpos by (simp add: field_simps)
    then have "(2 ^ (bn - 1) :: rat) / 2 ^ bd \<le> q" by (simp only: q)
    then show ?thesis by (simp only: e pow2_nat_diff)
  qed
qed

lemma roundHalfEven_ge_floor: "\<lfloor>s\<rfloor> \<le> roundHalfEven s"
  by (simp add: roundHalfEven_def Let_def)

lemma roundMag_pos:
  assumes "0 < q" and "0 < p"
  shows "0 < roundMag p q"
proof -
  define e where "e = binExp q"
  have "pow2 (int p - 1) = pow2 (e - 1) * pow2 (int p - e)"
    using pow2_add [of "e - 1" "int p - e"] by simp
  also have "\<dots> \<le> q * pow2 (int p - e)"
    using binExp_lower [OF assms(1)] pow2_pos [of "int p - e"]
    by (simp add: e_def)
  finally have "1 \<le> q * pow2 (int p - e)"
    using pow2_ge_one [of "int p - 1"] assms(2) by simp
  then have "1 \<le> \<lfloor>q * pow2 (int p - e)\<rfloor>" by (simp add: le_floor_iff)
  then have "0 < roundHalfEven (q * pow2 (int p - e))"
    using roundHalfEven_ge_floor [of "q * pow2 (int p - e)"] by linarith
  then show ?thesis
    using pow2_pos [of "e - int p"] by (simp add: roundMag_def e_def Let_def)
qed


lemma toEighteenDecimals_pos: "0 < a \<Longrightarrow> 0 < toEighteenDecimals t a d"
  by (simp add: toEighteenDecimals_def bigExp_def)

lemma toEighteenDecimals_zero: "toEighteenDecimals t 0 d = 0"
  by (simp add: toEighteenDecimals_def)

lemma SetInt_pos: "0 < x \<Longrightarrow> form (SetInt x) = FormFinite \<and> \<not> neg (SetInt x)
    \<and> magv (SetInt x) = of_int x \<and> 64 \<le> prec (SetInt x)"
  by (simp add: SetInt_def form_def magv_def)

lemma SetInt_zero: "form (SetInt 0) = FormZero \<and> \<not> neg (SetInt 0) \<and> prec (SetInt 0) = 64"
  by (simp add: SetInt_def form_def bitLen_def)

lemma Quo_pos:
  assumes "0 < x" and "0 < y"
  shows "\<exists>p q. Quo (SetInt x) (SetInt y) = Ok (BigFloat p False (Fin q)) \<and> 0 < q"
proof -
  define p where "p = max (prec (SetInt x)) (prec (SetInt y))"
  have "64 \<le> prec (SetInt x)" using SetInt_pos [OF assms(1)] by simp
  then have p: "0 < p" unfolding p_def by linarith
  have "0 < (of_int x :: rat) / of_int y" using assms by simp
  then have "0 < roundMag p (of_int x / of_int y)" using p by (rule roundMag_pos)
  moreover have "Quo (SetInt x) (SetInt y) = Ok (BigFloat p False (Fin (roundMag p (of_int x / of_int y))))"
    using SetInt_pos [OF assms(1)] SetInt_pos [OF assms(2)] by (simp add: Quo_def p_def Let_def)
  ultimately show ?thesis by blast
qed

lemma Quo_pos_zero:
  assumes "0 < x"
  shows "\<exists>p. Quo (SetInt x) (SetInt 0) = Ok (BigFloat p False Infinite)"
  using SetInt_pos [OF assms] SetInt_zero by (simp add: Quo_def Let_def)

lemma Quo_zero_zero: "Quo (SetInt 0) (SetInt 0) = Panic ErrNaN"
  using SetInt_zero by (simp add: Quo_def Let_def)


section \<open>The hop price at a zero reserve\<close>

lemma toEighteenDecimals_addr: "toEighteenDecimals t a d = toEighteenDecimals 0 a d"
  by (simp add: toEighteenDecimals_def)

lemma GetExchangeRate_price:
  assumes "str A \<noteq> str B" and "uint A \<noteq> uint B"
    and "ratePoolReservesProvider f (fst (pairProvider f A B)) = ((x0, x1), None)"
  shows "snd (GetExchangeRate str f A B) =
           (if uint A < uint B
            then calculatePrice x0 x1 (fst (rateTokenDecimalsProvider f A))
                   (fst (rateTokenDecimalsProvider f B)) a
            else calculatePrice x1 x0 (fst (rateTokenDecimalsProvider f A))
                   (fst (rateTokenDecimalsProvider f B)) a)"
proof (cases "uint A < uint B")
  case True
  then show ?thesis
    using assms toEighteenDecimals_addr [of A] toEighteenDecimals_addr [of B]
    by (simp add: GetExchangeRate_def calculatePrice_def Let_def)
next
  case False
  then have "uint B < uint A" using assms(2) by simp
  then show ?thesis
    using False assms toEighteenDecimals_addr [of A] toEighteenDecimals_addr [of B]
    by (simp add: GetExchangeRate_def calculatePrice_def Let_def)
qed

lemma price_inf:
  "0 < r1 \<Longrightarrow> \<exists>p. calculatePrice 0 r1 dA dB a = Ok (BigFloat p False Infinite)"
  using Quo_pos_zero [OF toEighteenDecimals_pos, of r1 0 dB]
  by (simp add: calculatePrice_def toEighteenDecimals_zero)

lemma price_nan: "calculatePrice 0 0 dA dB a = Panic ErrNaN"
  by (simp add: calculatePrice_def toEighteenDecimals_zero Quo_zero_zero)

lemma price_pos:
  "0 < r0 \<Longrightarrow> 0 < r1 \<Longrightarrow>
     \<exists>p q. calculatePrice r0 r1 dA dB a = Ok (BigFloat p False (Fin q)) \<and> 0 < q"
  using Quo_pos [OF toEighteenDecimals_pos toEighteenDecimals_pos, of r1 r0 0 dB 0 dA]
  by (simp add: calculatePrice_def)

text \<open>
  C3, as the code has it. With a zero input-side reserve no division-by-zero error is
  raised: when the output-side reserve is positive the price is \<open>+Inf\<close>, returned as an
  ordinary value; when both reserves are zero the division panics (\<open>ErrNaN\<close>, 0/0). With
  both reserves strictly positive the price is finite and strictly positive. The direct
  quote of two tokens with different addresses, once the reserves are read, is the hop
  price of the two reserves, the first-reported balance being the one of the token with
  the smaller address; so it returns \<open>+Inf\<close>, panics or is finite and strictly positive in
  the same three cases, whichever of the two tokens has the smaller address.
\<close>

theorem price_zero_reserve_and_positive:
  "(0 < r1 \<longrightarrow> (\<exists>p. calculatePrice 0 r1 dA dB a = Ok (BigFloat p False Infinite))) \<and>
   calculatePrice 0 0 dA dB a = Panic ErrNaN \<and>
   (0 < r0 \<and> 0 < r1 \<longrightarrow>
      (\<exists>p q. calculatePrice r0 r1 dA dB a = Ok (BigFloat p False (Fin q)) \<and> 0 < q)) \<and>
   (str A \<noteq> str B \<and> uint A \<noteq> uint B \<and>
    ratePoolReservesProvider f (fst (pairProvider f A B)) = ((x0, x1), None) \<longrightarrow>
      snd (GetExchangeRate str f A B) =
        calculatePrice (if uint A < uint B then x0 else x1) (if uint A < uint B then x1 else x0)
          (fst (rateTokenDecimalsProvider f A)) (fst (rateTokenDecimalsProvider f B)) None) \<and>
   (str A \<noteq> str B \<and> uint A \<noteq> uint B \<and>
    ratePoolReservesProvider f (fst (pairProvider f A B)) = ((x0, x1), None) \<and>
    (if uint A < uint B then x0 else x1) = 0 \<and> 0 < (if uint A < uint B then x1 else x0) \<longrightarrow>
      (\<exists>p. snd (GetExchangeRate str f A B) = Ok (BigFloat p False Infinite))) \<and>
   (str C \<noteq> str D \<and> uint C \<noteq> uint D \<and>
    ratePoolReservesProvider g (fst (pairProvider g C D)) = ((0, 0), None) \<longrightarrow>
      snd (GetExchangeRate str g C D) = Panic ErrNaN) \<and>
   (str E \<noteq> str F \<and> uint E \<noteq> uint F \<and>
    ratePoolReservesProvider h (fst (pairProvider h E F)) = ((y0, y1), None) \<and>
    0 < y0 \<and> 0 < y1 \<longrightarrow>
      (\<exists>p q. snd (GetExchangeRate str h E F) = Ok (BigFloat p False (Fin q)) \<and> 0 < q))"
proof (intro conjI impI)
  assume "0 < r1"
  then show "\<exists>p. calculatePrice 0 r1 dA dB a = Ok (BigFloat p False Infinite)"
    by (rule price_inf)
next
  show "calculatePrice 0 0 dA dB a = Panic ErrNaN" by (rule price_nan)
next
  assume "0 < r0 \<and> 0 < r1"
  then show "\<exists>p q. calculatePrice r0 r1 dA dB a = Ok (BigFloat p False (Fin q)) \<and> 0 < q"
    using price_pos by blast
next
  assume h: "str A \<noteq> str B \<and> uint A \<noteq> uint B \<and>
    ratePoolReservesProvider f (fst (pairProvider f A B)) = ((x0, x1), None)"
  then show "snd (GetExchangeRate str f A B) =
        calculatePrice (if uint A < uint B then x0 else x1) (if uint A < uint B then x1 else x0)
          (fst (rateTokenDecimalsProvider f A)) (fst (rateTokenDecimalsProvider f B)) None"
    using GetExchangeRate_price [of str A B f x0 x1 None] by simp
next
  assume h: "str A \<noteq> str B \<and> uint A \<noteq> uint B \<and>
    ratePoolReservesProvider f (fst (pairProvider f A B)) = ((x0, x1), None) \<and>
    (if uint A < uint B then x0 else x1) = 0 \<and> 0 < (if uint A < uint B then x1 else x0)"
  show "\<exists>p. snd (GetExchangeRate str f A B) = Ok (BigFloat p False Infinite)"
  proof (cases "uint A < uint B")
    case True
    then show ?thesis
      using h GetExchangeRate_price [of str A B f x0 x1 None] price_inf [of x1] by simp
  next
    case False
    then show ?thesis
      using h GetExchangeRate_price [of str A B f x0 x1 None] price_inf [of x0] by simp
  qed
next
  assume h: "str C \<noteq> str D \<and> uint C \<noteq> uint D \<and>
    ratePoolReservesProvider g (fst (pairProvider g C D)) = ((0, 0), None)"
  then show "snd (GetExchangeRate str g C D) = Panic ErrNaN"
    using GetExchangeRate_price [of str C D g 0 0 None] by (simp add: price_nan)
next
  assume h: "str E \<noteq> str F \<and> uint E \<noteq> uint F \<and>
    ratePoolReservesProvider h (fst (pairProvider h E F)) = ((y0, y1), None) \<and>
    0 < y0 \<and> 0 < y1"
  show "\<exists>p q. snd (GetExchangeRate str h E F) = Ok (BigFloat p False (Fin q)) \<and> 0 < q"
  proof (cases "uint E < uint F")
    case True
    then show ?thesis
      using h GetExchangeRate_price [of str E F h y0 y1 None] price_pos [of y0 y1] by simp
  next
    case False
    then show ?thesis
      using h GetExchangeRate_price [of str E F h y0 y1 None] price_pos [of y1 y0] by simp
  qed
qed


theorem price_zero_reserve_and_positive_witness:
  "(0::int) < 200 \<and> calculatePrice 0 200 18 18 None = Ok (BigFloat 64 False Infinite) \<and>
   (0::int) < 100 \<and> calculatePrice 100 200 18 18 None = Ok (BigFloat 64 False (Fin 2)) \<and>
   sampleString 2 \<noteq> sampleString 1 \<and> uint (2 :: address) \<noteq> uint (1 :: address) \<and>
   \<not> uint (2 :: address) < uint (1 :: address) \<and>
   ratePoolReservesProvider (quoteProvider (200, 0))
     (fst (pairProvider (quoteProvider (200, 0)) 2 1)) = ((200, 0), None) \<and>
   snd (GetExchangeRate sampleString (quoteProvider (200, 0)) 2 1)
     = Ok (BigFloat 64 False Infinite) \<and>
   sampleString 1 \<noteq> sampleString 2 \<and> uint (1 :: address) \<noteq> uint (2 :: address) \<and>
   ratePoolReservesProvider (quoteProvider (0, 0))
     (fst (pairProvider (quoteProvider (0, 0)) 1 2)) = ((0, 0), None) \<and>
   snd (GetExchangeRate sampleString (quoteProvider (0, 0)) 1 2) = Panic ErrNaN \<and>
   ratePoolReservesProvider (quoteProvider (100, 200))
     (fst (pairProvider (quoteProvider (100, 200)) 2 1)) = ((100, 200), None) \<and>
   snd (GetExchangeRate sampleString (quoteProvider (100, 200)) 2 1)
     = Ok (BigFloat 64 False (Fin (1 / 2)))"
proof -
  have e1: "calculatePrice 0 200 18 18 None = Ok (BigFloat 64 False Infinite)" by code_simp
  have e2: "calculatePrice 100 200 18 18 None = Ok (BigFloat 64 False (Fin 2))"
    by code_simp
  have e3: "snd (GetExchangeRate sampleString (quoteProvider (200, 0)) 2 1)
              = Ok (BigFloat 64 False Infinite)"
    by code_simp
  have e4: "snd (GetExchangeRate sampleString (quoteProvider (0, 0)) 1 2) = Panic ErrNaN"
    by code_simp
  have e5: "snd (GetExchangeRate sampleString (quoteProvider (100, 200)) 2 1)
              = Ok (BigFloat 64 False (Fin (1 / 2)))"
    by code_simp
  have s: "sampleString 1 \<noteq> sampleString 2" "sampleString 2 \<noteq> sampleString 1"
    by (simp_all add: sampleString_def)
  show ?thesis
    using price_zero_reserve_and_positive [where ?r1.0 = 200 and ?r0.0 = 100 and dA = 18
        and dB = 18 and a = None and str = sampleString
        and A = 2 and B = 1 and f = "quoteProvider (200, 0)" and ?x0.0 = 200 and ?x1.0 = 0
        and C = 1 and D = 2 and g = "quoteProvider (0, 0)"
        and E = 2 and F = 1 and h = "quoteProvider (100, 200)" and ?y0.0 = 100 and ?y1.0 = 200]
      e1 e2 e3 e4 e5 s
    by (simp add: quoteProvider_def)
qed

text \<open>
  C3 as stated fails: input-side reserve 0 and output-side reserve 1, at 18 decimals each,
  give the price \<open>+Inf\<close> and no error.
\<close>

theorem price_zero_reserve_counterexample:
  "calculatePrice 0 1 18 18 None = Ok (BigFloat 64 False Infinite)"
  by code_simp

section \<open>Validation\<close>

text \<open>
  C8. A route from a token to itself fails with the same-token error for every hop
  count; for two different tokens, zero hops and six hops fail with their hop-count
  errors. In each case the list of collaborator calls is empty.
\<close>

theorem route_validation_first:
  "Route str r A A k = ([], Err ErrSameToken) \<and>
   (str A \<noteq> str B \<longrightarrow>
      Route str r A B 0 = ([], Err ErrMaxHopsZero) \<and>
      Route str r A B 6 = ([], Err ErrMaxHopsTooLarge))"
  by (simp add: Route_def)

theorem route_validation_first_witness:
  "sampleString 1 \<noteq> sampleString 2 \<and>
   Route sampleString sampleRouter 1 1 3 = ([], Err ErrSameToken) \<and>
   Route sampleString sampleRouter 1 2 0 = ([], Err ErrMaxHopsZero) \<and>
   Route sampleString sampleRouter 1 2 6 = ([], Err ErrMaxHopsTooLarge)"
  using route_validation_first [of sampleString sampleRouter 1 3 2]
  by (simp add: sampleString_def)

section \<open>The routing loop on the sample universes\<close>

text \<open>
  C1. In the universe of X, Y, Z (pool X-Y with (100, 200), pool Y-Z with (100, 50), no
  pool for X and Z) the route from X to Z with at most two hops does not return the rate
  1 and the path X, Y, Z: the cache is filled for every pair of tokens, so the route ends
  with the resolver's error for the pair X, Z; with a resolver that reports no error it
  ends with the error of the reserve lookup, or panics on 0/0 when that lookup reports
  zero balances.
\<close>

theorem spec_scenario_fails:
  "snd (Route sampleString sampleRouter 1 3 2) = Err (ErrCollab ''pair not found'') \<and>
   snd (Route sampleString factoryRouter 1 3 2)
     = Err (ErrCollab ''no contract code at given address'') \<and>
   snd (Route sampleString emptyPoolRouter 1 3 2) = Panic ErrNaN"
  by code_simp

text \<open>
  C2. When the destination keeps the value 0 at the first hop level the loop stops with
  \<open>numHops = 0\<close>, and the result \<open>cachedPossibleOutputs[numHops-1]\<close> is read at index
  \<open>-1\<close>: the call panics, for \<open>maxHops = 2\<close> as for \<open>maxHops = 5\<close>.
\<close>

theorem unreachable_destination_panics:
  "snd (Route sampleString drainedRouter 1 2 2) = Panic IndexOutOfRange \<and>
   snd (Route sampleString drainedRouter 1 2 5) = Panic IndexOutOfRange"
  by code_simp

text \<open>
  C5. COMP is numerically smaller than WETH, so the pool reports (COMP balance, WETH
  balance) = (100, 200), and one WETH is worth 0.5 COMP: the direct quote says so. The
  string of WETH is bytewise smaller than the string of COMP (\<open>C\<close> before \<open>c\<close>), and the
  routing loop, which orients the reserves by the strings, takes 100 for the balance of
  WETH: it prices the hop at 2.
\<close>

theorem route_orients_by_string_order:
  "uint COMP < uint WETH \<and>
   strLess (sampleString WETH) (sampleString COMP) \<and>
   snd (GetExchangeRate sampleString
          \<lparr> pairProvider = tradingPairProvider compRouter,
            ratePoolReservesProvider = poolReservesProvider compRouter,
            rateTokenDecimalsProvider = tokenDecimalsProvider compRouter \<rparr> WETH COMP)
     = Ok (BigFloat 64 False (Fin (1 / 2))) \<and>
   snd (Route sampleString compRouter WETH COMP 2)
     = Ok (BigFloat 64 False (Fin 2), [WETH, COMP])"
  by code_simp

text \<open>
  C7. In the same universe the route from COMP to WETH has rate 2 with one hop and rate
  0.5 with at most two hops.
\<close>

theorem more_hops_lower_rate:
  "snd (Route sampleString compRouter COMP WETH 1)
     = Ok (BigFloat 64 False (Fin 2), [COMP, WETH]) \<and>
   snd (Route sampleString compRouter COMP WETH 2)
     = Ok (BigFloat 64 False (Fin (1 / 2)), [COMP, WETH]) \<and>
   Cmp (BigFloat 64 False (Fin (1 / 2))) (BigFloat 64 False (Fin 2)) = - 1"
  by code_simp

text \<open>
  C4 as stated fails twice. In the universe of X, Y, Z the route from X to Y with two
  hops ends with the resolver's error for the pair X, Z, which is not skipped; and with a
  decimals provider that reports an error at every lookup the route is computed all the
  same.
\<close>

theorem population_errors_counterexample:
  "snd (Route sampleString sampleRouter 1 2 2) = Err (ErrCollab ''pair not found'') \<and>
   tokenDecimalsProvider noDecimalsRouter 1 = (18, Some (ErrCollab ''decimals unavailable'')) \<and>
   snd (Route sampleString noDecimalsRouter 1 2 2) = Ok (BigFloat 64 False (Fin 2), [1, 2])"
  by code_simp

section \<open>Errors while the cache is filled\<close>

lemma populate_first_error:
  assumes "\<forall>(a, b) \<in> set pre. a \<noteq> b \<longrightarrow> lookupError r (tokens ! a) (tokens ! b) = None"
    and "i \<noteq> j" and "lookupError r (tokens ! i) (tokens ! j) = Some e"
  shows "\<exists>cs. populate str r tokens (pre @ (i, j) # post) cache = (cs, Err e)"
  using assms(1)
proof (induction pre arbitrary: cache)
  case Nil
  obtain pair e1 where tp: "tradingPairProvider r (tokens ! i) (tokens ! j) = (pair, e1)"
    by (cases "tradingPairProvider r (tokens ! i) (tokens ! j)")
  show ?case
  proof (cases e1)
    case (Some x)
    then have "x = e" using assms(3) tp by (simp add: lookupError_def)
    then show ?thesis using assms(2) tp Some by simp
  next
    case None
    obtain rs e2 where pr: "poolReservesProvider r pair = (rs, e2)"
      by (cases "poolReservesProvider r pair")
    have "e2 = Some e" using assms(3) tp None pr by (simp add: lookupError_def)
    then show ?thesis using assms(2) tp None pr by (cases rs) simp
  qed
next
  case (Cons p pre)
  obtain a b where p: "p = (a, b)" by (cases p)
  have rest: "\<forall>(a, b) \<in> set pre. a \<noteq> b \<longrightarrow> lookupError r (tokens ! a) (tokens ! b) = None"
    using Cons.prems by simp
  from Cons.IH [OF rest]
  have ih: "\<And>cache. \<exists>cs. populate str r tokens (pre @ (i, j) # post) cache = (cs, Err e)" .
  show ?case
  proof (cases "a = b")
    case True
    then show ?thesis using ih [of cache] p by simp
  next
    case False
    then have ok: "lookupError r (tokens ! a) (tokens ! b) = None" using Cons.prems p by simp
    obtain pair e1 where tp: "tradingPairProvider r (tokens ! a) (tokens ! b) = (pair, e1)"
      by (cases "tradingPairProvider r (tokens ! a) (tokens ! b)")
    have e1: "e1 = None" using ok tp by (cases e1) (simp_all add: lookupError_def)
    obtain rs e2 where pr: "poolReservesProvider r pair = (rs, e2)"
      by (cases "poolReservesProvider r pair")
    have e2: "e2 = None" using ok tp e1 pr by (simp add: lookupError_def)
    obtain ra rb where rs: "rs = (ra, rb)" by (cases rs)
    show ?thesis
    proof (cases "strLess (str (tokens ! b)) (str (tokens ! a))")
      case True
      from ih [of "cache(str (tokens ! a) @ str (tokens ! b) \<mapsto> (rb, ra))"]
      obtain cs where "populate str r tokens (pre @ (i, j) # post)
          (cache(str (tokens ! a) @ str (tokens ! b) \<mapsto> (rb, ra))) = (cs, Err e)" ..
      then show ?thesis using False p tp e1 pr e2 rs True by (simp add: Let_def)
    next
      case F: False
      from ih [of "cache(str (tokens ! a) @ str (tokens ! b) \<mapsto> (ra, rb))"]
      obtain cs where "populate str r tokens (pre @ (i, j) # post)
          (cache(str (tokens ! a) @ str (tokens ! b) \<mapsto> (ra, rb))) = (cs, Err e)" ..
      then show ?thesis using False p tp e1 pr e2 rs F by (simp add: Let_def)
    qed
  qed
qed

lemma indexPairs_mem: "i < n \<Longrightarrow> j < n \<Longrightarrow> (i, j) \<in> set (indexPairs n)"
  by (force simp: indexPairs_def)

lemma relax_decimals:
  "relax str (r \<lparr> tokenDecimalsProvider := (\<lambda>a. (fst (tokenDecimalsProvider r a), x a)) \<rparr>)
     = relax str r"
  by (intro ext)
    (simp add: relax_def Let_def cong: option.case_cong if_cong prod.case_cong)

lemma relaxAll_decimals:
  "relaxAll str (r \<lparr> tokenDecimalsProvider := (\<lambda>a. (fst (tokenDecimalsProvider r a), x a)) \<rparr>)
      tokens cache prevRow ios st
     = relaxAll str r tokens cache prevRow ios st"
  by (induction ios arbitrary: st) (simp_all add: relax_decimals)

lemma hopLoop_decimals:
  "hopLoop str (r \<lparr> tokenDecimalsProvider := (\<lambda>a. (fst (tokenDecimalsProvider r a), x a)) \<rparr>)
      tokens cache out n i st
     = hopLoop str r tokens cache out n i st"
  by (induction n arbitrary: i st)
    (simp_all add: relaxAll_decimals Let_def
       cong: prod.case_cong outcome.case_cong option.case_cong if_cong)

lemma populate_decimals:
  "populate str (r \<lparr> tokenDecimalsProvider := d \<rparr>) tokens ps cache
     = populate str r tokens ps cache"
proof (induction ps arbitrary: cache)
  case Nil
  show ?case by simp
next
  case (Cons p ps)
  obtain i j where p: "p = (i, j)" by (cases p)
  show ?case unfolding p
    by (simp add: Cons.IH Let_def
          cong: prod.case_cong outcome.case_cong option.case_cong if_cong)
qed

lemma routeDP_decimals:
  "routeDP str (r \<lparr> tokenDecimalsProvider := (\<lambda>a. (fst (tokenDecimalsProvider r a), x a)) \<rparr>)
      tokens cache tin tout maxHops
     = routeDP str r tokens cache tin tout maxHops"
  by (simp add: routeDP_def dpRun_def hopLoop_decimals)

text \<open>
  C4, as the code has it. For a multi-hop route (2 to 5 hops, two different tokens): an
  error of the pools provider ends the route with that error. While the cache is filled,
  pair by pair in the order of the two loops, the first lookup that fails, in the pair
  resolver or in the reserve reader, ends the route with exactly the error of that
  lookup, and no route is returned; this is stated for an error that does not mean "no
  pool for this pair" (\<open>pairAbsent\<close> is any such classification of the errors), and nothing
  is stated here about a pair without pool. The errors of the decimals provider are
  discarded: the route is the same whatever error the decimals lookups report.
\<close>

theorem population_error_aborts:
  assumes "str tokenIn \<noteq> str tokenOut" and "2 \<le> maxHops" and "maxHops \<le> 5"
  shows "Route str (r \<lparr> poolProvider := (pools0, Some e0) \<rparr>) tokenIn tokenOut maxHops
           = ([CallGetPools], Err e0) \<and>
         (poolProvider r = (pools, None) \<and>
          indexPairs (length (buildTokens str pools tokenIn tokenOut)) = pre @ (i, j) # post \<and>
          i \<noteq> j \<and>
          (\<forall>(a, b) \<in> set pre. a \<noteq> b \<longrightarrow>
             lookupError r (buildTokens str pools tokenIn tokenOut ! a)
                           (buildTokens str pools tokenIn tokenOut ! b) = None) \<and>
          lookupError r (buildTokens str pools tokenIn tokenOut ! i)
                        (buildTokens str pools tokenIn tokenOut ! j) = Some e \<and>
          \<not> pairAbsent e \<longrightarrow>
            (\<exists>cs. Route str r tokenIn tokenOut maxHops = (cs, Err e))) \<and>
         Route str (r \<lparr> tokenDecimalsProvider :=
                          (\<lambda>a. (fst (tokenDecimalsProvider r a), x a)) \<rparr>)
               tokenIn tokenOut maxHops
           = Route str r tokenIn tokenOut maxHops"
proof (intro conjI impI)
  show "Route str (r \<lparr> poolProvider := (pools0, Some e0) \<rparr>) tokenIn tokenOut maxHops
           = ([CallGetPools], Err e0)"
    using assms by (simp add: Route_def)
next
  let ?tokens = "buildTokens str pools tokenIn tokenOut"
  assume h: "poolProvider r = (pools, None) \<and>
          indexPairs (length ?tokens) = pre @ (i, j) # post \<and> i \<noteq> j \<and>
          (\<forall>(a, b) \<in> set pre. a \<noteq> b \<longrightarrow> lookupError r (?tokens ! a) (?tokens ! b) = None) \<and>
          lookupError r (?tokens ! i) (?tokens ! j) = Some e \<and> \<not> pairAbsent e"
  have pp: "poolProvider r = (pools, None)" using h by (elim conjE)
  have ip: "indexPairs (length ?tokens) = pre @ (i, j) # post" using h by (elim conjE)
  have ij: "i \<noteq> j" using h by (elim conjE)
  have pre: "\<forall>(a, b) \<in> set pre. a \<noteq> b \<longrightarrow> lookupError r (?tokens ! a) (?tokens ! b) = None"
    using h by (elim conjE)
  have le: "lookupError r (?tokens ! i) (?tokens ! j) = Some e" using h by (elim conjE)
  from populate_first_error [OF pre ij le, of str post Map.empty]
  obtain cs where "populate str r ?tokens (pre @ (i, j) # post) Map.empty = (cs, Err e)" ..
  then have pe: "populate str r ?tokens (indexPairs (length ?tokens)) Map.empty = (cs, Err e)"
    by (simp only: ip)
  have "Route str r tokenIn tokenOut maxHops = (CallGetPools # cs, Err e)"
    using assms pp pe by (simp add: Route_def Let_def)
  then show "\<exists>cs. Route str r tokenIn tokenOut maxHops = (cs, Err e)" by blast
next
  show "Route str (r \<lparr> tokenDecimalsProvider :=
                          (\<lambda>a. (fst (tokenDecimalsProvider r a), x a)) \<rparr>)
               tokenIn tokenOut maxHops
           = Route str r tokenIn tokenOut maxHops"
    using assms by (simp add: Route_def populate_decimals routeDP_decimals)
qed

theorem population_error_aborts_witness:
  "sampleString 1 \<noteq> sampleString 2 \<and> (2 :: int) \<le> 2 \<and> (2 :: int) \<le> 5 \<and>
   poolProvider timeoutRouter = (samplePools, None) \<and>
   buildTokens sampleString samplePools 1 2 = [1, 2, 3] \<and>
   indexPairs 3 = [(0, 0), (0, 1)] @ (0, 2) # [(1, 0), (1, 1), (1, 2), (2, 0), (2, 1), (2, 2)] \<and>
   lookupError timeoutRouter 1 2 = None \<and>
   lookupError timeoutRouter 1 3 = Some (ErrCollab ''rpc timeout'') \<and>
   ErrCollab ''rpc timeout'' \<noteq> ErrCollab ''pair not found'' \<and>
   snd (Route sampleString timeoutRouter 1 2 2) = Err (ErrCollab ''rpc timeout'')"
proof -
  have s: "sampleString 1 \<noteq> sampleString 2" by (simp add: sampleString_def)
  have p: "poolProvider timeoutRouter = (samplePools, None)"
    by (simp add: timeoutRouter_def onChainRouter_def)
  have t: "buildTokens sampleString samplePools 1 2 = [1, 2, 3]" by code_simp
  have ip: "indexPairs 3 =
      [(0, 0), (0, 1)] @ (0, 2) # [(1, 0), (1, 1), (1, 2), (2, 0), (2, 1), (2, 2)]"
    by code_simp
  have l1: "lookupError timeoutRouter 1 2 = None" by code_simp
  have l2: "lookupError timeoutRouter 1 3 = Some (ErrCollab ''rpc timeout'')" by code_simp
  have len: "length [1 :: address, 2, 3] = 3" by simp
  have ip': "indexPairs (length (buildTokens sampleString samplePools 1 2)) =
      [(0, 0), (0, 1)] @ (0, 2) # [(1, 0), (1, 1), (1, 2), (2, 0), (2, 1), (2, 2)]"
    unfolding t len by (rule ip)
  have pre: "\<forall>(a, b) \<in> set [(0 :: nat, 0 :: nat), (0, 1)]. a \<noteq> b \<longrightarrow>
               lookupError timeoutRouter (buildTokens sampleString samplePools 1 2 ! a)
                 (buildTokens sampleString samplePools 1 2 ! b) = None"
    unfolding t using l1 by simp
  have l2': "lookupError timeoutRouter (buildTokens sampleString samplePools 1 2 ! 0)
               (buildTokens sampleString samplePools 1 2 ! 2) = Some (ErrCollab ''rpc timeout'')"
    unfolding t using l2 by simp
  have na: "\<not> (ErrCollab ''rpc timeout'' = ErrCollab ''pair not found'')" by simp
  have two: "(2 :: int) \<le> 2" "(2 :: int) \<le> 5" by simp_all
  note inst = population_error_aborts [OF s two, where r = timeoutRouter and pools = samplePools
        and pre = "[(0, 0), (0, 1)]" and i = 0 and j = 2
        and post = "[(1, 0), (1, 1), (1, 2), (2, 0), (2, 1), (2, 2)]"
        and e = "ErrCollab ''rpc timeout''"
        and pairAbsent = "\<lambda>e. e = ErrCollab ''pair not found''"]
  have ij: "(0 :: nat) \<noteq> 2" by simp
  have "\<exists>cs. Route sampleString timeoutRouter 1 2 2 = (cs, Err (ErrCollab ''rpc timeout''))"
    by (rule mp [OF conjunct1 [OF conjunct2 [OF inst]]]) (intro conjI p ip' ij pre l2' na)
  then have r: "snd (Route sampleString timeoutRouter 1 2 2) = Err (ErrCollab ''rpc timeout'')"
    by auto
  show ?thesis by (intro conjI s two p t ip l1 l2 r) simp
qed

end
